theory Spec2Isabelle
  imports Complex_Main
begin

section \<open>JavaScript values and strings\<close>

text \<open>
  The values a JSON request body or an HTTP response body can hold.  A number is
  either NaN or a finite value; only the distinction between zero, NaN and the
  rest matters to the code (truthiness), so the finite value is kept as a rational.
\<close>

datatype jsnum = NaN | Finite rat

datatype jsval =
    JUndefined
  | JNull
  | JBool bool
  | JNum jsnum
  | JStr string
  | JObject "(string \<times> jsval) list"
  | JArray "jsval list"

text \<open>JavaScript's ToBoolean: what \<open>if (v)\<close> and \<open>!v\<close> test.\<close>

fun truthy :: "jsval \<Rightarrow> bool" where
  "truthy JUndefined = False"
| "truthy JNull = False"
| "truthy (JBool b) = b"
| "truthy (JNum NaN) = False"
| "truthy (JNum (Finite q)) = (q \<noteq> 0)"
| "truthy (JStr s) = (s \<noteq> [])"
| "truthy (JObject _) = True"
| "truthy (JArray _) = True"

text \<open>\<open>typeof v === 'string'\<close>.\<close>

fun is_string :: "jsval \<Rightarrow> bool" where
  "is_string (JStr _) = True"
| "is_string _ = False"

text \<open>
  A value that is a string or \<open>null\<close>/\<open>undefined\<close> is an optional string;
  its truthiness is that of the string.
\<close>

fun truthy_str :: "string option \<Rightarrow> bool" where
  "truthy_str None = False"
| "truthy_str (Some s) = (s \<noteq> [])"

text \<open>\<open>a || b\<close> on optional strings: the first truthy operand, else the second.\<close>

definition or_else :: "string option \<Rightarrow> string option \<Rightarrow> string option" where
  "or_else a b = (if truthy_str a then a else b)"

text \<open>Decimal rendering of a non-negative integer, as template interpolation gives it.\<close>

definition digit_char :: "nat \<Rightarrow> char" where
  "digit_char d = char_of (48 + d)"

function show_nat :: "nat \<Rightarrow> string" where
  "show_nat n = (if n < 10 then [digit_char n] else show_nat (n div 10) @ [digit_char (n mod 10)])"
  by pat_completeness auto
termination
  by (relation "measure id") auto

declare show_nat.simps [simp del]

text \<open>\<open>String.prototype.startsWith\<close> and \<open>String.prototype.includes\<close>.\<close>

fun startsWith :: "string \<Rightarrow> string \<Rightarrow> bool" where
  "startsWith s [] = True"
| "startsWith [] (p # ps) = False"
| "startsWith (c # cs) (p # ps) = (c = p \<and> startsWith cs ps)"

fun str_includes :: "string \<Rightarrow> string \<Rightarrow> bool" where
  "str_includes [] sub = (sub = [])"
| "str_includes (c # cs) sub = (startsWith (c # cs) sub \<or> str_includes cs sub)"

text \<open>
  \<open>String.prototype.trim\<close>: the white space and line terminator code units below 256
  (tab, line feed, vertical tab, form feed, carriage return, space, no-break space).
\<close>

definition js_space :: "char \<Rightarrow> bool" where
  "js_space c = (of_char c \<in> {9::nat, 10, 11, 12, 13, 32, 160})"

definition trim :: "string \<Rightarrow> string" where
  "trim s = rev (dropWhile js_space (rev (dropWhile js_space s)))"

section \<open>The scorer (services/seoService.js, calculateScore)\<close>

text \<open>
  Source: \<open>src/src/server.js\<close>, lines 204 to 268 (that file holds \<open>server.js\<close>
  followed by \<open>services/seoService.js\<close>).  The signals record is what
  \<open>parseSEOData\<close> returns: \<open>title\<close> and \<open>metaDescription\<close> are a string or
  \<open>null\<close>, the counts are array lengths and counters.
\<close>

record seoData =
  title :: "string option"
  metaDescription :: "string option"
  h1Count :: nat
  totalImages :: nat
  imagesMissingAlt :: nat
  totalInternalLinks :: nat
  usesHTTPS :: bool

record ScoreResult =
  score :: nat
  issues :: "string list"
  passedChecks :: "string list"

record scoring_entry =
  points :: nat
  message :: string

definition TITLE_PRESENT :: scoring_entry where
  "TITLE_PRESENT = \<lparr>points = 20, message = ''Page has a title tag''\<rparr>"

definition META_DESCRIPTION_PRESENT :: scoring_entry where
  "META_DESCRIPTION_PRESENT = \<lparr>points = 20, message = ''Page has a meta description''\<rparr>"

definition H1_PRESENT :: scoring_entry where
  "H1_PRESENT = \<lparr>points = 20, message = ''Page has at least one H1 tag''\<rparr>"

definition IMAGES_HAVE_ALT :: scoring_entry where
  "IMAGES_HAVE_ALT = \<lparr>points = 20, message = ''All images have alt text''\<rparr>"

definition USES_HTTPS :: scoring_entry where
  "USES_HTTPS = \<lparr>points = 20, message = ''Page uses HTTPS''\<rparr>"

text \<open>
  The two arms of every check: a pass adds the entry's points and pushes its
  message on \<open>passedChecks\<close>; a failure pushes the issue text on \<open>issues\<close>.
\<close>

definition check_passed :: "scoring_entry \<Rightarrow> ScoreResult \<Rightarrow> ScoreResult" where
  "check_passed c st =
     st\<lparr>score := score st + points c, passedChecks := passedChecks st @ [message c]\<rparr>"

definition check_failed :: "string \<Rightarrow> ScoreResult \<Rightarrow> ScoreResult" where
  "check_failed msg st = st\<lparr>issues := issues st @ [msg]\<rparr>"

definition check_title :: "seoData \<Rightarrow> ScoreResult \<Rightarrow> ScoreResult" where
  "check_title d st =
     (if truthy_str (title d) then check_passed TITLE_PRESENT st
      else check_failed ''Missing page title tag'' st)"

definition check_metaDescription :: "seoData \<Rightarrow> ScoreResult \<Rightarrow> ScoreResult" where
  "check_metaDescription d st =
     (if truthy_str (metaDescription d) then check_passed META_DESCRIPTION_PRESENT st
      else check_failed ''Missing meta description'' st)"

definition check_h1 :: "seoData \<Rightarrow> ScoreResult \<Rightarrow> ScoreResult" where
  "check_h1 d st =
     (if h1Count d \<ge> 1 then check_passed H1_PRESENT st
      else check_failed ''No H1 tags found on the page'' st)"

definition missing_alt_issue :: "nat \<Rightarrow> string" where
  "missing_alt_issue n = show_nat n @ '' image(s) missing alt text''"

definition check_images :: "seoData \<Rightarrow> ScoreResult \<Rightarrow> ScoreResult" where
  "check_images d st =
     (if totalImages d = 0 \<or> imagesMissingAlt d = 0 then check_passed IMAGES_HAVE_ALT st
      else check_failed (missing_alt_issue (imagesMissingAlt d)) st)"

definition check_https :: "seoData \<Rightarrow> ScoreResult \<Rightarrow> ScoreResult" where
  "check_https d st =
     (if usesHTTPS d then check_passed USES_HTTPS st
      else check_failed ''Page does not use HTTPS'' st)"

definition calculateScore :: "seoData \<Rightarrow> ScoreResult" where
  "calculateScore d =
     (let st0 = \<lparr>score = 0, issues = [], passedChecks = []\<rparr>;
          st1 = check_title d st0;
          st2 = check_metaDescription d st1;
          st3 = check_h1 d st2;
          st4 = check_images d st3;
          st5 = check_https d st4
      in st5\<lparr>score := min (score st5) 100\<rparr>)"

section \<open>The parsed document (what cheerio.load returns)\<close>

text \<open>
  The HTML parser is a library; the extractor only queries the tree it returns.
  An element has a tag name, its attributes in source order and its children.
\<close>

datatype node =
    Element string "(string \<times> string) list" "node list"
  | Text string

fun tag_name :: "node \<Rightarrow> string" where
  "tag_name (Element t _ _) = t"
| "tag_name (Text _) = []"

fun attribs :: "node \<Rightarrow> (string \<times> string) list" where
  "attribs (Element _ as _) = as"
| "attribs (Text _) = []"

text \<open>All elements of a forest in document order.\<close>

fun elements_of :: "node \<Rightarrow> node list"
  and elements :: "node list \<Rightarrow> node list" where
  "elements_of (Text _) = []"
| "elements_of (Element t as cs) = Element t as cs # elements cs"
| "elements [] = []"
| "elements (n # ns) = elements_of n @ elements ns"

text \<open>The text content of a node: its descendant text nodes, concatenated.\<close>

fun text_of :: "node \<Rightarrow> string"
  and text_of_all :: "node list \<Rightarrow> string" where
  "text_of (Text s) = s"
| "text_of (Element _ _ cs) = text_of_all cs"
| "text_of_all [] = []"
| "text_of_all (n # ns) = text_of n @ text_of_all ns"

text \<open>\<open>$(element).attr(name)\<close>: the attribute's value, or undefined.\<close>

definition attr_of :: "node \<Rightarrow> string \<Rightarrow> string option" where
  "attr_of e a = map_of (attribs e) a"

text \<open>
  The selectors the extractor uses: \<open>$('t')\<close>, \<open>$('t[a="v"]')\<close> (the attribute
  value is compared exactly) and \<open>$('t[a]')\<close>.  A selection is the list of the
  matching elements in document order.
\<close>

definition select_tag :: "node list \<Rightarrow> string \<Rightarrow> node list" where
  "select_tag doc t = filter (\<lambda>e. tag_name e = t) (elements doc)"

definition select_attr_eq :: "node list \<Rightarrow> string \<Rightarrow> string \<Rightarrow> string \<Rightarrow> node list" where
  "select_attr_eq doc t a v =
     filter (\<lambda>e. tag_name e = t \<and> attr_of e a = Some v) (elements doc)"

definition select_has_attr :: "node list \<Rightarrow> string \<Rightarrow> string \<Rightarrow> node list" where
  "select_has_attr doc t a =
     filter (\<lambda>e. tag_name e = t \<and> attr_of e a \<noteq> None) (elements doc)"

text \<open>\<open>.first()\<close>, \<open>.text()\<close> and \<open>.attr(name)\<close> of a selection.\<close>

definition sel_first :: "node list \<Rightarrow> node list" where
  "sel_first sel = take 1 sel"

definition sel_text :: "node list \<Rightarrow> string" where
  "sel_text sel = text_of_all sel"

definition sel_attr :: "node list \<Rightarrow> string \<Rightarrow> string option" where
  "sel_attr sel a = (case sel of [] \<Rightarrow> None | e # _ \<Rightarrow> attr_of e a)"

section \<open>Errors and the libraries the service calls\<close>

record js_error =
  err_name :: string
  err_message :: string
  err_code :: "string option"
  err_response :: "nat option"

text \<open>\<open>new Error(msg)\<close>: no \<open>code\<close>, no \<open>response\<close>.\<close>

definition new_Error :: "string \<Rightarrow> js_error" where
  "new_Error msg =
     \<lparr>err_name = ''Error'', err_message = msg, err_code = None, err_response = None\<rparr>"

text \<open>What \<open>new URL(s)\<close> throws on an unparsable string.\<close>

definition invalid_url_error :: js_error where
  "invalid_url_error =
     \<lparr>err_name = ''TypeError'', err_message = ''Invalid URL'',
      err_code = Some ''ERR_INVALID_URL'', err_response = None\<rparr>"

text \<open>What reading an undeclared identifier throws.\<close>

definition reference_error :: "string \<Rightarrow> js_error" where
  "reference_error ident =
     \<lparr>err_name = ''ReferenceError'', err_message = ident @ '' is not defined'',
      err_code = None, err_response = None\<rparr>"

record url_obj =
  protocol :: string
  hostname :: string

record axios_response =
  status :: nat
  content_type :: "string option"
  data :: jsval

datatype transport_result = Answered axios_response | Failed js_error

text \<open>
  The library functions are parameters: URL parsing and resolution, the HTML
  parser, the HTTP transport (the final answer after redirects, or a transport
  failure), and the \<open>code\<close> the HTTP client puts on the error it raises for a
  status that \<open>validateStatus\<close> rejects.
\<close>

record lib =
  URL_parse :: "string \<Rightarrow> url_obj option"
  URL_resolve :: "string \<Rightarrow> string \<Rightarrow> url_obj option"
  cheerio_load :: "string \<Rightarrow> node list"
  http_get :: "string \<Rightarrow> transport_result"
  bad_status_code :: "nat \<Rightarrow> string option"

section \<open>The extractor (services/seoService.js, parseSEOData)\<close>

text \<open>Source: \<open>src/src/server.js\<close>, lines 134 to 197.\<close>

text \<open>The callback of the loop over \<open>$('img')\<close>: counts an image without usable alt text.\<close>

definition alt_missing :: "node \<Rightarrow> bool" where
  "alt_missing element =
     (case attr_of element ''alt'' of None \<Rightarrow> True | Some alt \<Rightarrow> trim alt = [])"

definition count_missing_alt :: "node \<Rightarrow> nat \<Rightarrow> nat" where
  "count_missing_alt element n = (if alt_missing element then n + 1 else n)"

text \<open>
  The callback of the loop over \<open>$('a[href]')\<close>.  A relative path counts without
  resolution; any other href is resolved against the page URL and counts when the
  host names agree; an href that does not resolve is skipped.
\<close>

definition count_internal_link :: "lib \<Rightarrow> string \<Rightarrow> string \<Rightarrow> node \<Rightarrow> nat \<Rightarrow> nat" where
  "count_internal_link L url baseDomain element n =
     (case attr_of element ''href'' of
        None \<Rightarrow> n
      | Some href \<Rightarrow>
          if href = [] then n
          else if startsWith href ''/'' \<or> startsWith href ''./'' \<or> startsWith href ''../''
          then n + 1
          else (case URL_resolve L href url of
                  None \<Rightarrow> n
                | Some linkUrl \<Rightarrow> if hostname linkUrl = baseDomain then n + 1 else n))"

definition extract_title :: "node list \<Rightarrow> string option" where
  "extract_title doc =
     (let t = trim (sel_text (sel_first (select_tag doc ''title'')))
      in if t \<noteq> [] then Some t else None)"

definition extract_metaDescription :: "node list \<Rightarrow> string option" where
  "extract_metaDescription doc =
     or_else
       (or_else (sel_attr (select_attr_eq doc ''meta'' ''name'' ''description'') ''content'')
                (sel_attr (select_attr_eq doc ''meta'' ''name'' ''Description'') ''content''))
       None"

definition parseSEOData :: "lib \<Rightarrow> string \<Rightarrow> string \<Rightarrow> js_error + seoData" where
  "parseSEOData L html url =
     (let doc = cheerio_load L html in
      case URL_parse L url of
        None \<Rightarrow> Inl invalid_url_error
      | Some urlObj \<Rightarrow>
          (let baseDomain = hostname urlObj
           in Inr \<lparr>title = extract_title doc,
                   metaDescription = extract_metaDescription doc,
                   h1Count = length (select_tag doc ''h1''),
                   totalImages = length (select_tag doc ''img''),
                   imagesMissingAlt = fold count_missing_alt (select_tag doc ''img'') 0,
                   totalInternalLinks =
                     fold (count_internal_link L url baseDomain)
                          (select_has_attr doc ''a'' ''href'') 0,
                   usesHTTPS = (protocol urlObj = ''https:'')\<rparr>))"

section \<open>The fetcher (services/seoService.js, fetchHTML)\<close>

text \<open>Source: \<open>src/src/server.js\<close>, lines 46 to 126.\<close>

definition validateStatus :: "nat \<Rightarrow> bool" where
  "validateStatus st = (st \<ge> 200 \<and> st < 300)"

text \<open>
  \<open>axios.get\<close> with the configured \<open>validateStatus\<close>: an answer whose status the
  predicate rejects becomes an error carrying the response.
\<close>

definition axios_get :: "lib \<Rightarrow> string \<Rightarrow> js_error + axios_response" where
  "axios_get L url =
     (case http_get L url of
        Failed e \<Rightarrow> Inl e
      | Answered r \<Rightarrow>
          if validateStatus (status r) then Inr r
          else Inl \<lparr>err_name = ''AxiosError'',
                    err_message = ''Request failed with status code '' @ show_nat (status r),
                    err_code = bad_status_code L (status r),
                    err_response = Some (status r)\<rparr>)"

definition MAX_SIZE :: nat where
  "MAX_SIZE = 10 * 1024 * 1024"

fun the_string :: "jsval \<Rightarrow> string" where
  "the_string (JStr s) = s"
| "the_string _ = []"

text \<open>The body of the \<open>try\<close> block.\<close>

definition fetch_try :: "lib \<Rightarrow> string \<Rightarrow> js_error + string" where
  "fetch_try L url =
     (case axios_get L url of
        Inl e \<Rightarrow> Inl e
      | Inr response \<Rightarrow>
          (let contentType = (case content_type response of
                                None \<Rightarrow> []
                              | Some c \<Rightarrow> if c \<noteq> [] then c else []);
               html = data response
           in if \<not> str_includes contentType ''text/html''
                 \<and> \<not> str_includes contentType ''text/plain''
              then Inl (new_Error ''URL does not return HTML content'')
              else if \<not> truthy html \<or> \<not> is_string html
                      \<or> length (trim (the_string html)) = 0
              then Inl (new_Error ''Empty HTML: Page returned no content'')
              else if length (the_string html) > MAX_SIZE
              then Inl (new_Error ''Page too large: Content exceeds 10MB limit'')
              else Inr (the_string html)))"

text \<open>
  The \<open>catch\<close> block.  It receives every error of the \<open>try\<close> block, the ones
  thrown there by \<open>fetchHTML\<close> itself included, and always throws a fresh
  \<open>Error\<close>.
\<close>

definition fetch_catch :: "js_error \<Rightarrow> js_error" where
  "fetch_catch error =
     (if err_code error = Some ''ECONNABORTED''
      then new_Error ''Request timeout: URL did not respond in time''
      else if err_code error = Some ''ENOTFOUND'' \<or> err_code error = Some ''EAI_AGAIN''
      then new_Error ''DNS lookup failed: Unable to resolve domain name''
      else if err_code error = Some ''ECONNREFUSED''
      then new_Error ''Connection refused: Server is not accepting connections''
      else if err_code error = Some ''ETIMEDOUT''
      then new_Error ''Connection timeout: Unable to establish connection''
      else (case err_response error of
              Some st \<Rightarrow>
                if st \<ge> 400 \<and> st < 500
                then new_Error (''Client error: Server returned '' @ show_nat st @ '' status code'')
                else if st \<ge> 500
                then new_Error (''Server error: Server returned '' @ show_nat st @ '' status code'')
                else new_Error (''HTTP error: Server returned '' @ show_nat st @ '' status code'')
            | None \<Rightarrow>
                if err_code error = Some ''UNABLE_TO_VERIFY_LEAF_SIGNATURE''
                   \<or> err_code error = Some ''CERT_HAS_EXPIRED''
                   \<or> err_code error = Some ''SELF_SIGNED_CERT_IN_CHAIN''
                then new_Error ''SSL certificate error: Invalid or expired certificate''
                else if err_message error \<noteq> []
                then new_Error (''Failed to fetch URL: '' @ err_message error)
                else new_Error ''Unknown error occurred while fetching URL''))"

definition fetchHTML :: "lib \<Rightarrow> string \<Rightarrow> js_error + string" where
  "fetchHTML L url =
     (case fetch_try L url of
        Inr html \<Rightarrow> Inr html
      | Inl error \<Rightarrow> Inl (fetch_catch error))"

section \<open>The error classifier (utils/errorHandler.js, handleError)\<close>

text \<open>Source: \<open>src/unnamed/part_001\<close>, lines 6 to 108.\<close>

record classified =
  c_status :: nat
  c_error :: string
  c_message :: string

text \<open>
  The chain of tests in source order.  The test after the two on
  \<open>error.response\<close> reads the identifier \<open>err\<close>, which the module never
  declares: evaluating it throws a ReferenceError, so the final
  \<open>return\<close> of status 500 behind it is never reached.
\<close>

definition handleError :: "js_error \<Rightarrow> js_error + classified" where
  "handleError error =
     (let message = (if err_message error \<noteq> [] then err_message error
                     else ''Unknown error occurred'')
      in if str_includes message ''Invalid URL''
            \<or> str_includes message ''URL must be''
            \<or> str_includes message ''Missing required field''
            \<or> str_includes message ''Invalid input type''
         then Inr \<lparr>c_status = 400, c_error = ''Invalid Request'', c_message = message\<rparr>
         else if str_includes message ''timeout''
            \<or> str_includes message ''did not respond in time''
            \<or> err_code error = Some ''ECONNABORTED''
            \<or> err_code error = Some ''ETIMEDOUT''
         then Inr \<lparr>c_status = 408, c_error = ''Request Timeout'',
                   c_message = ''The request timed out while fetching the URL''\<rparr>
         else if str_includes message ''Connection refused''
            \<or> str_includes message ''blocked''
            \<or> err_code error = Some ''ECONNREFUSED''
            \<or> err_response error = Some 403
         then Inr \<lparr>c_status = 403, c_error = ''Access Forbidden'',
                   c_message = ''The website is blocking access or refusing connections''\<rparr>
         else if str_includes message ''Empty HTML''
            \<or> str_includes message ''No content''
         then Inr \<lparr>c_status = 422, c_error = ''Unprocessable Content'',
                   c_message = ''The page returned empty or no HTML content''\<rparr>
         else if str_includes message ''too large''
            \<or> str_includes message ''exceeds size limit''
         then Inr \<lparr>c_status = 413, c_error = ''Payload Too Large'',
                   c_message = ''The page content exceeds the maximum allowed size''\<rparr>
         else if str_includes message ''DNS lookup failed''
            \<or> str_includes message ''Unable to resolve''
            \<or> err_code error = Some ''ENOTFOUND''
            \<or> err_code error = Some ''EAI_AGAIN''
         then Inr \<lparr>c_status = 502, c_error = ''Bad Gateway'',
                   c_message = ''Unable to resolve the domain name''\<rparr>
         else (case err_response error of
                 Some st \<Rightarrow>
                   if st \<ge> 500
                   then Inr \<lparr>c_status = 502, c_error = ''Bad Gateway'',
                             c_message = ''Target server returned error: '' @ show_nat st\<rparr>
                   else if st \<ge> 400 \<and> st < 500
                   then Inr \<lparr>c_status = 400, c_error = ''Bad Request'',
                             c_message = ''Target server returned error: '' @ show_nat st\<rparr>
                   else Inl (reference_error ''err'')
               | None \<Rightarrow> Inl (reference_error ''err'')))"

section \<open>The route (routes/analyze.js, POST /)\<close>

text \<open>Source: \<open>src/unnamed/part_000\<close>, lines 6 to 73.\<close>

record analysis =
  a_url :: string
  seoScore :: nat
  checks :: "string list"
  a_issues :: "string list"
  a_passedChecks :: "string list"

datatype http_body = ErrorBody string string | AnalysisBody analysis

text \<open>
  What a request ends in: a response that was sent, with its status and JSON body
  (an error body holds the fields \<open>error\<close> and \<open>message\<close>), or an exception that
  leaves the handler with no response sent.
\<close>

datatype outcome = Sent nat http_body | Unhandled js_error

text \<open>The second \<open>try\<close> block of the handler: fetch, parse, score, merge.\<close>

definition perform_analysis :: "lib \<Rightarrow> string \<Rightarrow> js_error + analysis" where
  "perform_analysis L url =
     (case fetchHTML L url of
        Inl e \<Rightarrow> Inl e
      | Inr html \<Rightarrow>
          (case parseSEOData L html url of
             Inl e \<Rightarrow> Inl e
           | Inr seoData \<Rightarrow>
               (let scoreResult = calculateScore seoData;
                    checks = passedChecks scoreResult @ issues scoreResult
                in Inr \<lparr>a_url = url, seoScore = score scoreResult, checks = checks,
                        a_issues = issues scoreResult,
                        a_passedChecks = passedChecks scoreResult\<rparr>)))"

text \<open>The request body is a JSON object: a map from field names to values.\<close>

definition body_url :: "(string \<rightharpoonup> jsval) \<Rightarrow> jsval" where
  "body_url body = (case body ''url'' of None \<Rightarrow> JUndefined | Some v \<Rightarrow> v)"

definition analyze :: "lib \<Rightarrow> (string \<rightharpoonup> jsval) \<Rightarrow> outcome" where
  "analyze L body =
     (let url = body_url body
      in if \<not> truthy url
         then Sent 400 (ErrorBody ''Missing required field'' ''URL is required in request body'')
         else if \<not> is_string url
         then Sent 400 (ErrorBody ''Invalid input type'' ''URL must be a string'')
         else (case URL_parse L (the_string url) of
                 None \<Rightarrow> Sent 400 (ErrorBody ''Invalid URL format'' ''URL must be a valid URL'')
               | Some urlObj \<Rightarrow>
                   if protocol urlObj \<noteq> ''http:'' \<and> protocol urlObj \<noteq> ''https:''
                   then Sent 400 (ErrorBody ''Invalid URL protocol''
                                            ''URL must use http or https protocol'')
                   else (case perform_analysis L (the_string url) of
                           Inr a \<Rightarrow> Sent 200 (AnalysisBody a)
                         | Inl error \<Rightarrow>
                             (case handleError error of
                                Inr c \<Rightarrow> Sent (c_status c) (ErrorBody (c_error c) (c_message c))
                              | Inl e \<Rightarrow> Unhandled e))))"

section \<open>The spec's reading of the meta description, and concrete inputs\<close>

text \<open>
  The spec's words, for comparison with \<open>extract_metaDescription\<close>: the content
  attribute of the first meta element whose name equals "description" when letter
  case is ignored; absent when there is no such element.
\<close>

definition lower_char :: "char \<Rightarrow> char" where
  "lower_char c =
     (if 65 \<le> (of_char c :: nat) \<and> (of_char c :: nat) \<le> 90
      then char_of ((of_char c :: nat) + 32) else c)"

definition spec_metaDescription :: "node list \<Rightarrow> string option" where
  "spec_metaDescription doc =
     (case find (\<lambda>e. tag_name e = ''meta'' \<and>
                      (case attr_of e ''name'' of
                         None \<Rightarrow> False
                       | Some n \<Rightarrow> map lower_char n = ''description''))
                (elements doc) of
        None \<Rightarrow> None
      | Some e \<Rightarrow> attr_of e ''content'')"

text \<open>A URL parser that knows three addresses, and the client's error codes.\<close>

definition example_url_parse :: "string \<Rightarrow> url_obj option" where
  "example_url_parse s =
     (if s = ''https://example.com''
      then Some \<lparr>protocol = ''https:'', hostname = ''example.com''\<rparr>
      else if s = ''http://example.com''
      then Some \<lparr>protocol = ''http:'', hostname = ''example.com''\<rparr>
      else if s = ''ftp://example.com''
      then Some \<lparr>protocol = ''ftp:'', hostname = ''example.com''\<rparr>
      else None)"

definition axios_status_code :: "nat \<Rightarrow> string option" where
  "axios_status_code st =
     (if 400 \<le> st \<and> st < 500 then Some ''ERR_BAD_REQUEST''
      else if 500 \<le> st \<and> st < 600 then Some ''ERR_BAD_RESPONSE''
      else None)"

text \<open>
  A library environment in which every page parses to \<open>doc\<close> and every request is
  answered by \<open>r\<close>.
\<close>

definition example_lib :: "node list \<Rightarrow> axios_response \<Rightarrow> lib" where
  "example_lib doc r =
     \<lparr>URL_parse = example_url_parse,
      URL_resolve = (\<lambda>href base. example_url_parse href),
      cheerio_load = (\<lambda>html. doc),
      http_get = (\<lambda>url. Answered r),
      bad_status_code = axios_status_code\<rparr>"

definition html_page :: "string \<Rightarrow> axios_response" where
  "html_page html =
     \<lparr>status = 200, content_type = Some ''text/html; charset=utf-8'', data = JStr html\<rparr>"

definition error_page :: "nat \<Rightarrow> axios_response" where
  "error_page st = \<lparr>status = st, content_type = Some ''text/html'', data = JStr ''Server Error''\<rparr>"

definition example_doc :: "node list" where
  "example_doc =
     [Element ''html'' []
        [Element ''head'' []
           [Element ''title'' [] [Text ''Test''],
            Element ''meta'' [(''name'', ''description''), (''content'', ''desc'')] []],
         Element ''body'' []
           [Element ''h1'' [] [Text ''H''],
            Element ''img'' [(''src'', ''a.jpg''), (''alt'', ''x'')] []]]]"

definition two_images_doc :: "node list" where
  "two_images_doc =
     [Element ''html'' []
        [Element ''head'' [] [],
         Element ''body'' []
           [Element ''img'' [(''src'', ''a.jpg''), (''alt'', ''x'')] [],
            Element ''img'' [(''src'', ''b.jpg'')] []]]]"

definition upper_case_meta_doc :: "node list" where
  "upper_case_meta_doc =
     [Element ''html'' []
        [Element ''head'' []
           [Element ''meta'' [(''name'', ''DESCRIPTION''), (''content'', ''desc'')] []]]]"

definition two_metas_doc :: "node list" where
  "two_metas_doc =
     [Element ''html'' []
        [Element ''head'' []
           [Element ''meta'' [(''name'', ''Description''), (''content'', ''first'')] [],
            Element ''meta'' [(''name'', ''description''), (''content'', ''second'')] []]]]"

definition example_request :: "string \<rightharpoonup> jsval" where
  "example_request = [''url'' \<mapsto> JStr ''https://example.com'']"

text \<open>The signals of the example page fetched over plain HTTP, and of the two-image page.\<close>

definition example_signals :: seoData where
  "example_signals =
     \<lparr>title = Some ''Test'', metaDescription = Some ''desc'', h1Count = 1,
      totalImages = 1, imagesMissingAlt = 0, totalInternalLinks = 0, usesHTTPS = False\<rparr>"

definition two_images_signals :: seoData where
  "two_images_signals =
     \<lparr>title = None, metaDescription = None, h1Count = 0,
      totalImages = 2, imagesMissingAlt = 1, totalInternalLinks = 0, usesHTTPS = True\<rparr>"

text \<open>The response to the example page fetched over plain HTTP.\<close>

definition example_analysis :: analysis where
  "example_analysis =
     \<lparr>a_url = ''http://example.com'', seoScore = 80,
      checks = [''Page has a title tag'', ''Page has a meta description'',
                ''Page has at least one H1 tag'', ''All images have alt text'',
                ''Page does not use HTTPS''],
      a_issues = [''Page does not use HTTPS''],
      a_passedChecks = [''Page has a title tag'', ''Page has a meta description'',
                        ''Page has at least one H1 tag'', ''All images have alt text'']\<rparr>"

section \<open>Properties of the scorer\<close>

lemmas check_defs =
  check_title_def check_metaDescription_def check_h1_def check_images_def check_https_def
  check_passed_def check_failed_def
  TITLE_PRESENT_def META_DESCRIPTION_PRESENT_def H1_PRESENT_def IMAGES_HAVE_ALT_def
  USES_HTTPS_def

lemma digit_char_simps:
  "digit_char 0 = CHR ''0''" "digit_char 1 = CHR ''1''" "digit_char 2 = CHR ''2''"
  "digit_char 3 = CHR ''3''" "digit_char 4 = CHR ''4''" "digit_char 5 = CHR ''5''"
  "digit_char 6 = CHR ''6''" "digit_char 7 = CHR ''7''" "digit_char 8 = CHR ''8''"
  "digit_char 9 = CHR ''9''"
  by code_simp+

lemma show_nat_1: "show_nat 1 = ''1''" "show_nat (Suc 0) = ''1''"
  by code_simp+

lemma missing_alt_issue_last: "last (missing_alt_issue n) = CHR ''t''"
  by (simp add: missing_alt_issue_def)

lemma missing_alt_issue_distinct:
  "missing_alt_issue n \<noteq> ''Missing page title tag''"
  "missing_alt_issue n \<noteq> ''Missing meta description''"
  "missing_alt_issue n \<noteq> ''No H1 tags found on the page''"
  "missing_alt_issue n \<noteq> ''Page does not use HTTPS''"
  using missing_alt_issue_last [of n] by auto

text \<open>Each check adds exactly one message, to exactly one of the two lists.\<close>

lemma check_passed_lengths:
  "length (passedChecks (check_passed c st)) = Suc (length (passedChecks st))"
  "length (issues (check_passed c st)) = length (issues st)"
  by (simp_all add: check_passed_def)

lemma check_failed_lengths:
  "length (passedChecks (check_failed m st)) = length (passedChecks st)"
  "length (issues (check_failed m st)) = Suc (length (issues st))"
  by (simp_all add: check_failed_def)

lemma each_check_one_message:
  "f \<in> {check_title, check_metaDescription, check_h1, check_images, check_https} \<Longrightarrow>
   length (passedChecks (f d st)) + length (issues (f d st))
     = Suc (length (passedChecks st) + length (issues st))"
  by (auto simp: check_title_def check_metaDescription_def check_h1_def check_images_def
        check_https_def check_passed_lengths check_failed_lengths)

text \<open>
  C4.  The score is 20 points for each check that passed, capped at 100: it equals 20
  times the number of the five conditions that hold (and 20 times the number of
  passed-check messages), so it lies between 0 and 100 and is a multiple of 20.
\<close>

theorem calculateScore_score:
  "score (calculateScore d)
     = min (20 * length (filter id
         [truthy_str (title d), truthy_str (metaDescription d), h1Count d \<ge> 1,
          totalImages d = 0 \<or> imagesMissingAlt d = 0, usesHTTPS d])) 100
   \<and> score (calculateScore d) = min (20 * length (passedChecks (calculateScore d))) 100
   \<and> 0 \<le> score (calculateScore d) \<and> score (calculateScore d) \<le> 100
   \<and> score (calculateScore d) mod 20 = 0"
  by (simp add: calculateScore_def Let_def check_defs)

theorem calculateScore_score_witness:
  "score (calculateScore example_signals) = 80 \<and> score (calculateScore two_images_signals) = 20"
proof -
  have a: "score (calculateScore example_signals) = 80"
    using calculateScore_score [of example_signals] by (simp add: example_signals_def)
  have b: "score (calculateScore two_images_signals) = 20"
    using calculateScore_score [of two_images_signals] by (simp add: two_images_signals_def)
  from a b show ?thesis by simp
qed

text \<open>
  The extractor's counter of images without alt text counts the selected images
  whose alt attribute is missing or blank, so it never exceeds the number of images.
\<close>

lemma fold_count_missing_alt:
  "fold count_missing_alt es n = n + length (filter alt_missing es)"
  by (induction es arbitrary: n) (simp_all add: count_missing_alt_def)

lemma imagesMissingAlt_count:
  assumes "parseSEOData L html url = Inr d"
  shows "imagesMissingAlt d
           = length (filter alt_missing (select_tag (cheerio_load L html) ''img''))
       \<and> totalImages d = length (select_tag (cheerio_load L html) ''img'')
       \<and> imagesMissingAlt d \<le> totalImages d"
  using assms
  by (auto simp: parseSEOData_def Let_def fold_count_missing_alt split: option.splits)

text \<open>
  C5.  The image check passes exactly when there are no images or none lacks alt text.
  On a pass it appends "All images have alt text" to the passed checks (and adds 20
  points); on a failure it appends the count of images without alt text, in decimal,
  followed by " image(s) missing alt text" to the issues.  In the result of the scorer
  the pass message is present exactly on a pass and the issue exactly on a failure.
\<close>

theorem image_alt_check:
  "(totalImages d = 0 \<or> imagesMissingAlt d = 0 \<longrightarrow>
      check_images d st
        = st\<lparr>score := score st + 20,
             passedChecks := passedChecks st @ [''All images have alt text'']\<rparr>)
   \<and> (\<not> (totalImages d = 0 \<or> imagesMissingAlt d = 0) \<longrightarrow>
      check_images d st
        = st\<lparr>issues := issues st
               @ [show_nat (imagesMissingAlt d) @ '' image(s) missing alt text'']\<rparr>)
   \<and> (''All images have alt text'' \<in> set (passedChecks (calculateScore d))
        \<longleftrightarrow> (totalImages d = 0 \<or> imagesMissingAlt d = 0))
   \<and> (show_nat (imagesMissingAlt d) @ '' image(s) missing alt text''
          \<in> set (issues (calculateScore d))
        \<longleftrightarrow> \<not> (totalImages d = 0 \<or> imagesMissingAlt d = 0))"
  using missing_alt_issue_distinct [of "imagesMissingAlt d"]
  by (simp add: calculateScore_def Let_def check_defs missing_alt_issue_def)

theorem image_alt_check_witness:
  "parseSEOData (example_lib two_images_doc (html_page ''<html>'')) ''<html>''
       ''https://example.com'' = Inr two_images_signals
   \<and> ''1 image(s) missing alt text'' \<in> set (issues (calculateScore two_images_signals))
   \<and> ''All images have alt text'' \<notin> set (passedChecks (calculateScore two_images_signals))
   \<and> ''All images have alt text'' \<in> set (passedChecks (calculateScore example_signals))"
proof -
  have p: "parseSEOData (example_lib two_images_doc (html_page ''<html>'')) ''<html>''
       ''https://example.com'' = Inr two_images_signals"
    by code_simp
  have t: "totalImages two_images_signals = 2" "imagesMissingAlt two_images_signals = 1"
    by (simp_all add: two_images_signals_def)
  have e: "totalImages example_signals = 1" "imagesMissingAlt example_signals = 0"
    by (simp_all add: example_signals_def)
  have a: "''1 image(s) missing alt text'' \<in> set (issues (calculateScore two_images_signals))"
    using image_alt_check [of two_images_signals] by (simp add: t show_nat_1)
  have b: "''All images have alt text'' \<notin> set (passedChecks (calculateScore two_images_signals))"
    using image_alt_check [of two_images_signals] by (simp add: t)
  have c: "''All images have alt text'' \<in> set (passedChecks (calculateScore example_signals))"
    using image_alt_check [of example_signals] by (simp add: e)
  from p a b c show ?thesis by simp
qed

text \<open>
  C6.  The scorer's two lists hold five messages together: each of the five checks
  contributes one message to one list.
\<close>

theorem five_messages:
  "length (passedChecks (calculateScore d)) + length (issues (calculateScore d)) = 5"
  by (simp add: calculateScore_def Let_def each_check_one_message
        check_passed_lengths check_failed_lengths check_defs)

theorem five_messages_witness:
  "length (passedChecks (calculateScore example_signals)) = 4
   \<and> length (issues (calculateScore example_signals)) = 1"
proof -
  have a: "length (passedChecks (calculateScore example_signals)) = 4"
    by code_simp
  then show ?thesis using five_messages [of example_signals] by simp
qed

section \<open>Properties of the route\<close>

lemma perform_analysis_result:
  assumes "perform_analysis L url = Inr a"
  shows "\<exists>html d. fetchHTML L url = Inr html \<and> parseSEOData L html url = Inr d
           \<and> a_url a = url
           \<and> seoScore a = score (calculateScore d)
           \<and> a_passedChecks a = passedChecks (calculateScore d)
           \<and> a_issues a = issues (calculateScore d)
           \<and> checks a = passedChecks (calculateScore d) @ issues (calculateScore d)"
  using assms by (auto simp: perform_analysis_def Let_def split: sum.splits)

lemma analyze_success:
  assumes "analyze L body = Sent st (AnalysisBody a)"
  shows "st = 200 \<and> perform_analysis L (the_string (body_url body)) = Inr a"
  using assms
  by (auto simp: analyze_def Let_def split: if_splits option.splits sum.splits)

text \<open>
  C7.  In every successful response the list \<open>checks\<close> is the passed checks followed
  by the issues, and these two fields are the scorer's lists, unchanged.
\<close>

theorem checks_concatenation:
  assumes "analyze L body = Sent st (AnalysisBody a)"
  shows "checks a = a_passedChecks a @ a_issues a
       \<and> (\<exists>html d. parseSEOData L html (a_url a) = Inr d
             \<and> a_passedChecks a = passedChecks (calculateScore d)
             \<and> a_issues a = issues (calculateScore d))"
proof -
  from analyze_success [OF assms]
  have "perform_analysis L (the_string (body_url body)) = Inr a" by simp
  from perform_analysis_result [OF this]
  obtain html d where "parseSEOData L html (a_url a) = Inr d"
    and "a_passedChecks a = passedChecks (calculateScore d)"
    and "a_issues a = issues (calculateScore d)"
    and "checks a = passedChecks (calculateScore d) @ issues (calculateScore d)"
    by auto
  then show ?thesis by auto
qed

theorem checks_concatenation_witness:
  "analyze (example_lib example_doc (html_page ''<html>'')) [''url'' \<mapsto> JStr ''http://example.com'']
     = Sent 200 (AnalysisBody example_analysis)
   \<and> checks example_analysis = a_passedChecks example_analysis @ a_issues example_analysis"
proof -
  let ?L = "example_lib example_doc (html_page ''<html>'')"
  have f: "fetchHTML ?L ''http://example.com'' = Inr ''<html>''"
    by (simp add: fetchHTML_def fetch_try_def axios_get_def example_lib_def html_page_def
          validateStatus_def MAX_SIZE_def trim_def js_space_def)
  have p: "parseSEOData ?L ''<html>'' ''http://example.com'' = Inr example_signals"
    by code_simp
  have c: "calculateScore example_signals
             = \<lparr>score = seoScore example_analysis, issues = a_issues example_analysis,
                passedChecks = a_passedChecks example_analysis\<rparr>"
    by code_simp
  have u: "URL_parse ?L ''http://example.com''
             = Some \<lparr>protocol = ''http:'', hostname = ''example.com''\<rparr>"
    by (simp add: example_lib_def example_url_parse_def)
  have a: "analyze ?L [''url'' \<mapsto> JStr ''http://example.com'']
             = Sent 200 (AnalysisBody example_analysis)"
    by (simp add: analyze_def body_url_def perform_analysis_def f p c u example_analysis_def)
  from checks_concatenation [OF a] a show ?thesis by simp
qed

text \<open>The labels the classifier can produce.\<close>

lemma handleError_labels:
  "handleError e = Inr c \<Longrightarrow>
     c_error c \<in> {''Invalid Request'', ''Request Timeout'', ''Access Forbidden'',
                  ''Unprocessable Content'', ''Payload Too Large'', ''Bad Gateway'',
                  ''Bad Request''}"
  unfolding handleError_def Let_def
  by (auto split: if_splits option.splits)

lemma handleError_not_input_type:
  "handleError e = Inr c \<Longrightarrow> c_error c \<noteq> ''Invalid input type''"
  by (drule handleError_labels) auto

text \<open>The three arms of the validation of \<open>url\<close>.\<close>

lemma analyze_falsy:
  "\<not> truthy (body_url body) \<Longrightarrow>
     analyze L body
       = Sent 400 (ErrorBody ''Missing required field'' ''URL is required in request body'')"
  by (simp add: analyze_def)

lemma analyze_non_string:
  "truthy (body_url body) \<Longrightarrow> \<not> is_string (body_url body) \<Longrightarrow>
     analyze L body = Sent 400 (ErrorBody ''Invalid input type'' ''URL must be a string'')"
  by (simp add: analyze_def)

lemma analyze_string_label:
  assumes "truthy (body_url body)" "is_string (body_url body)"
    and "analyze L body = Sent st (ErrorBody lbl msg)"
  shows "lbl \<in> {''Invalid URL format'', ''Invalid URL protocol'', ''Invalid Request'',
                ''Request Timeout'', ''Access Forbidden'', ''Unprocessable Content'',
                ''Payload Too Large'', ''Bad Gateway'', ''Bad Request''}"
proof (cases "URL_parse L (the_string (body_url body))")
  case None
  with assms show ?thesis by (simp add: analyze_def)
next
  case (Some urlObj)
  show ?thesis
  proof (cases "protocol urlObj \<noteq> ''http:'' \<and> protocol urlObj \<noteq> ''https:''")
    case True
    with assms Some show ?thesis by (simp add: analyze_def)
  next
    case False
    show ?thesis
    proof (cases "perform_analysis L (the_string (body_url body))")
      case (Inr a)
      with assms Some False show ?thesis by (auto simp: analyze_def)
    next
      case (Inl error)
      show ?thesis
      proof (cases "handleError error")
        case (Inl e)
        with assms Some False \<open>perform_analysis L (the_string (body_url body)) = Inl error\<close>
        show ?thesis by (auto simp: analyze_def)
      next
        case (Inr c)
        with assms Some False \<open>perform_analysis L (the_string (body_url body)) = Inl error\<close>
        have "lbl = c_error c" by (auto simp: analyze_def)
        with handleError_labels [OF Inr] show ?thesis by auto
      qed
    qed
  qed
qed

text \<open>
  C10.  A falsy \<open>url\<close> value, whatever its type (so also 0, false and NaN), is answered
  by the missing-field branch; the response labelled "Invalid input type" is sent
  exactly for the truthy values that are not strings.
\<close>

theorem falsy_url_is_missing_field:
  "(\<not> truthy (body_url body) \<longrightarrow>
       analyze L body
         = Sent 400 (ErrorBody ''Missing required field'' ''URL is required in request body''))
   \<and> ((\<exists>st msg. analyze L body = Sent st (ErrorBody ''Invalid input type'' msg))
        \<longleftrightarrow> truthy (body_url body) \<and> \<not> is_string (body_url body))
   \<and> (truthy (body_url body) \<and> \<not> is_string (body_url body) \<longrightarrow>
       analyze L body = Sent 400 (ErrorBody ''Invalid input type'' ''URL must be a string''))"
proof (intro conjI impI iffI)
  assume "\<not> truthy (body_url body)"
  then show "analyze L body
         = Sent 400 (ErrorBody ''Missing required field'' ''URL is required in request body'')"
    by (rule analyze_falsy)
next
  assume "\<exists>st msg. analyze L body = Sent st (ErrorBody ''Invalid input type'' msg)"
  then obtain st msg where s: "analyze L body = Sent st (ErrorBody ''Invalid input type'' msg)"
    by blast
  show "truthy (body_url body)"
  proof (rule ccontr)
    assume "\<not> truthy (body_url body)"
    from analyze_falsy [OF this, of L] s show False by simp
  qed
  then show "\<not> is_string (body_url body)"
    using analyze_string_label [OF _ _ s] by auto
next
  assume "truthy (body_url body) \<and> \<not> is_string (body_url body)"
  then have "analyze L body = Sent 400 (ErrorBody ''Invalid input type'' ''URL must be a string'')"
    by (simp add: analyze_non_string)
  then show "\<exists>st msg. analyze L body = Sent st (ErrorBody ''Invalid input type'' msg)"
    by blast
next
  assume "truthy (body_url body) \<and> \<not> is_string (body_url body)"
  then show "analyze L body = Sent 400 (ErrorBody ''Invalid input type'' ''URL must be a string'')"
    by (simp add: analyze_non_string)
qed

theorem falsy_url_is_missing_field_witness:
  "analyze (example_lib example_doc (html_page ''<html>'')) [''url'' \<mapsto> JNum (Finite 0)]
     = Sent 400 (ErrorBody ''Missing required field'' ''URL is required in request body'')
   \<and> analyze (example_lib example_doc (html_page ''<html>'')) [''url'' \<mapsto> JBool False]
     = Sent 400 (ErrorBody ''Missing required field'' ''URL is required in request body'')
   \<and> analyze (example_lib example_doc (html_page ''<html>'')) [''url'' \<mapsto> JNum NaN]
     = Sent 400 (ErrorBody ''Missing required field'' ''URL is required in request body'')
   \<and> analyze (example_lib example_doc (html_page ''<html>'')) [''url'' \<mapsto> JBool True]
     = Sent 400 (ErrorBody ''Invalid input type'' ''URL must be a string'')"
proof -
  let ?L = "example_lib example_doc (html_page ''<html>'')"
  have a: "analyze ?L [''url'' \<mapsto> JNum (Finite 0)]
     = Sent 400 (ErrorBody ''Missing required field'' ''URL is required in request body'')"
    using falsy_url_is_missing_field [of "[''url'' \<mapsto> JNum (Finite 0)]" ?L]
    by (simp add: body_url_def)
  have b: "analyze ?L [''url'' \<mapsto> JBool False]
     = Sent 400 (ErrorBody ''Missing required field'' ''URL is required in request body'')"
    using falsy_url_is_missing_field [of "[''url'' \<mapsto> JBool False]" ?L]
    by (simp add: body_url_def)
  have c: "analyze ?L [''url'' \<mapsto> JNum NaN]
     = Sent 400 (ErrorBody ''Missing required field'' ''URL is required in request body'')"
    using falsy_url_is_missing_field [of "[''url'' \<mapsto> JNum NaN]" ?L]
    by (simp add: body_url_def)
  have d: "analyze ?L [''url'' \<mapsto> JBool True]
     = Sent 400 (ErrorBody ''Invalid input type'' ''URL must be a string'')"
    using falsy_url_is_missing_field [of "[''url'' \<mapsto> JBool True]" ?L]
    by (simp add: body_url_def)
  from a b c d show ?thesis by simp
qed

text \<open>
  C2.  What the route answers when \<open>url\<close> is absent, null or empty, and when it is a
  truthy value that is not a string: status 400 in both cases, with the labels
  "Missing required field" and "Invalid input type".  The label "Invalid Request"
  is only ever sent for a \<open>url\<close> that is a non-empty string.
\<close>

theorem validation_error_labels:
  "(body ''url'' = None \<or> body ''url'' = Some JNull \<or> body ''url'' = Some (JStr []) \<longrightarrow>
      analyze L body
        = Sent 400 (ErrorBody ''Missing required field'' ''URL is required in request body''))
   \<and> (body ''url'' = Some (JNum (Finite 12345)) \<longrightarrow>
      analyze L body = Sent 400 (ErrorBody ''Invalid input type'' ''URL must be a string''))
   \<and> (\<forall>st msg. analyze L body = Sent st (ErrorBody ''Invalid Request'' msg) \<longrightarrow>
        is_string (body_url body) \<and> truthy (body_url body))"
proof (intro conjI impI allI)
  assume "body ''url'' = None \<or> body ''url'' = Some JNull \<or> body ''url'' = Some (JStr [])"
  then have "\<not> truthy (body_url body)" by (auto simp: body_url_def)
  then show "analyze L body
        = Sent 400 (ErrorBody ''Missing required field'' ''URL is required in request body'')"
    by (rule analyze_falsy)
next
  assume "body ''url'' = Some (JNum (Finite 12345))"
  then have "truthy (body_url body)" "\<not> is_string (body_url body)"
    by (simp_all add: body_url_def)
  then show "analyze L body = Sent 400 (ErrorBody ''Invalid input type'' ''URL must be a string'')"
    by (rule analyze_non_string)
next
  fix st msg
  assume s: "analyze L body = Sent st (ErrorBody ''Invalid Request'' msg)"
  show "truthy (body_url body)"
  proof (rule ccontr)
    assume "\<not> truthy (body_url body)"
    from analyze_falsy [OF this, of L] s show False by simp
  qed
  then show "is_string (body_url body)"
    using analyze_non_string [of body L] s by auto
qed

theorem validation_error_labels_witness:
  "analyze (example_lib example_doc (html_page ''<html>'')) Map.empty
     = Sent 400 (ErrorBody ''Missing required field'' ''URL is required in request body'')
   \<and> analyze (example_lib example_doc (html_page ''<html>'')) [''url'' \<mapsto> JNum (Finite 12345)]
     = Sent 400 (ErrorBody ''Invalid input type'' ''URL must be a string'')"
proof -
  let ?L = "example_lib example_doc (html_page ''<html>'')"
  have a: "analyze ?L Map.empty
     = Sent 400 (ErrorBody ''Missing required field'' ''URL is required in request body'')"
    using validation_error_labels [of Map.empty ?L] by simp
  have b: "analyze ?L [''url'' \<mapsto> JNum (Finite 12345)]
     = Sent 400 (ErrorBody ''Invalid input type'' ''URL must be a string'')"
    using validation_error_labels [of "[''url'' \<mapsto> JNum (Finite 12345)]" ?L] by simp
  from a b show ?thesis by simp
qed

section \<open>Properties of the fetcher and the classifier\<close>

lemma trim_all_space:
  assumes "\<forall>c\<in>set s. js_space c"
  shows "trim s = []"
proof -
  from assms have e: "dropWhile js_space s = []"
    by (simp only: dropWhile_eq_Nil_conv)
  show ?thesis unfolding trim_def e by simp
qed

lemma handleError_empty:
  "handleError (new_Error ''Failed to fetch URL: Empty HTML: Page returned no content'')
     = Inr \<lparr>c_status = 422, c_error = ''Unprocessable Content'',
             c_message = ''The page returned empty or no HTML content''\<rparr>"
  by (simp add: handleError_def new_Error_def)

lemma fetch_try_empty:
  assumes "http_get L url = Answered r" "validateStatus (status r)"
    "content_type r = Some ct"
    "str_includes ct ''text/html'' \<or> str_includes ct ''text/plain''"
    "data r = JStr s" "\<forall>c\<in>set s. js_space c"
  shows "fetch_try L url = Inl (new_Error ''Empty HTML: Page returned no content'')"
proof -
  have "axios_get L url = Inr r"
    using assms(1,2) by (simp add: axios_get_def)
  moreover have "ct \<noteq> []"
    using assms(4) by auto
  moreover have "length (trim s) = 0"
    using trim_all_space [OF assms(6)] by simp
  ultimately show ?thesis
    using assms(3,4,5) by (auto simp: fetch_try_def Let_def)
qed

lemma fetchHTML_empty:
  assumes "http_get L url = Answered r" "validateStatus (status r)"
    "content_type r = Some ct"
    "str_includes ct ''text/html'' \<or> str_includes ct ''text/plain''"
    "data r = JStr s" "\<forall>c\<in>set s. js_space c"
  shows "fetchHTML L url
           = Inl (new_Error ''Failed to fetch URL: Empty HTML: Page returned no content'')"
  using fetch_try_empty [OF assms]
  by (simp add: fetchHTML_def fetch_catch_def new_Error_def)

text \<open>
  C8.  A request for a valid http(s) URL whose answer has a 2xx status, a content type
  naming text/html or text/plain and a body that is empty or only white space: the
  fetcher fails with its "Empty HTML" error, and the route answers 422,
  "Unprocessable Content", "The page returned empty or no HTML content".
\<close>

theorem empty_body_is_422:
  assumes "body ''url'' = Some (JStr url)" "url \<noteq> []"
    and "URL_parse L url = Some u" "protocol u = ''http:'' \<or> protocol u = ''https:''"
    and "http_get L url = Answered r" "validateStatus (status r)"
    and "content_type r = Some ct"
      "str_includes ct ''text/html'' \<or> str_includes ct ''text/plain''"
    and "data r = JStr s" "\<forall>c\<in>set s. js_space c"
  shows "fetchHTML L url
           = Inl (new_Error ''Failed to fetch URL: Empty HTML: Page returned no content'')
       \<and> analyze L body
           = Sent 422 (ErrorBody ''Unprocessable Content''
                         ''The page returned empty or no HTML content'')"
proof -
  have f: "fetchHTML L url
           = Inl (new_Error ''Failed to fetch URL: Empty HTML: Page returned no content'')"
    by (rule fetchHTML_empty [OF assms(5-10)])
  then have p: "perform_analysis L url
           = Inl (new_Error ''Failed to fetch URL: Empty HTML: Page returned no content'')"
    by (simp add: perform_analysis_def)
  have "analyze L body
           = Sent 422 (ErrorBody ''Unprocessable Content''
                         ''The page returned empty or no HTML content'')"
    using assms(1-4) by (auto simp: analyze_def body_url_def Let_def p handleError_empty)
  with f show ?thesis by simp
qed

theorem empty_body_is_422_witness:
  "analyze (example_lib example_doc (html_page ''  '')) example_request
     = Sent 422 (ErrorBody ''Unprocessable Content''
                   ''The page returned empty or no HTML content'')
   \<and> analyze (example_lib example_doc (html_page [])) example_request
     = Sent 422 (ErrorBody ''Unprocessable Content''
                   ''The page returned empty or no HTML content'')"
proof -
  have a: "analyze (example_lib example_doc (html_page ''  '')) example_request
     = Sent 422 (ErrorBody ''Unprocessable Content''
                   ''The page returned empty or no HTML content'')"
    using empty_body_is_422 [of example_request "''https://example.com''"
        "example_lib example_doc (html_page ''  '')"
        "\<lparr>protocol = ''https:'', hostname = ''example.com''\<rparr>"
        "html_page ''  ''" "''text/html; charset=utf-8''" "''  ''"]
    by (simp add: example_request_def example_lib_def example_url_parse_def html_page_def
          validateStatus_def js_space_def)
  have b: "analyze (example_lib example_doc (html_page [])) example_request
     = Sent 422 (ErrorBody ''Unprocessable Content''
                   ''The page returned empty or no HTML content'')"
    using empty_body_is_422 [of example_request "''https://example.com''"
        "example_lib example_doc (html_page [])"
        "\<lparr>protocol = ''https:'', hostname = ''example.com''\<rparr>"
        "html_page []" "''text/html; charset=utf-8''" "[]"]
    by (simp add: example_request_def example_lib_def example_url_parse_def html_page_def
          validateStatus_def)
  from a b show ?thesis by simp
qed

section \<open>Determinism of extraction and scoring\<close>

text \<open>
  C9.  Two evaluations of the extractor and the scorer on the same HTML text and the
  same URL give the same signals and the same score result, whatever the rest of
  the environment (the network) does in the two runs: the result depends only on
  the text, the URL and the parsing functions.
\<close>

theorem extraction_scoring_deterministic:
  assumes "URL_parse L1 = URL_parse L2" "URL_resolve L1 = URL_resolve L2"
    "cheerio_load L1 = cheerio_load L2" "html1 = html2" "url1 = url2"
  shows "parseSEOData L1 html1 url1 = parseSEOData L2 html2 url2
       \<and> map_sum id calculateScore (parseSEOData L1 html1 url1)
         = map_sum id calculateScore (parseSEOData L2 html2 url2)"
proof -
  have c: "count_internal_link L1 = count_internal_link L2"
    by (intro ext) (simp add: count_internal_link_def assms cong: option.case_cong if_cong)
  have "parseSEOData L1 html1 url1 = parseSEOData L2 html2 url2"
    unfolding parseSEOData_def c assms(1,3,4,5) by (rule refl)
  then show ?thesis by simp
qed

theorem extraction_scoring_deterministic_witness:
  "parseSEOData (example_lib example_doc (html_page ''<html>'')) ''<html>'' ''http://example.com''
     = parseSEOData (example_lib example_doc (error_page 500)) ''<html>'' ''http://example.com''
   \<and> parseSEOData (example_lib example_doc (html_page ''<html>'')) ''<html>'' ''http://example.com''
     = Inr example_signals"
proof -
  have a: "parseSEOData (example_lib example_doc (html_page ''<html>'')) ''<html>''
             ''http://example.com'' = Inr example_signals"
    by code_simp
  have b: "parseSEOData (example_lib example_doc (html_page ''<html>'')) ''<html>''
             ''http://example.com''
           = parseSEOData (example_lib example_doc (error_page 500)) ''<html>''
             ''http://example.com''"
    using extraction_scoring_deterministic
      [of "example_lib example_doc (html_page ''<html>'')"
          "example_lib example_doc (error_page 500)"
          "''<html>''" "''<html>''" "''http://example.com''" "''http://example.com''"]
    by (simp add: example_lib_def)
  from a b show ?thesis by simp
qed

section \<open>Target status errors\<close>

lemma digit_char_in_digits: "d < 10 \<Longrightarrow> digit_char d \<in> set ''0123456789''"
proof -
  assume "d < 10"
  then have "d \<in> {0, 1, 2, 3, 4, 5, 6, 7, 8, 9}" by auto
  then show ?thesis
    using digit_char_simps by (elim insertE emptyE) simp_all
qed

lemma show_nat_digits: "set (show_nat n) \<subseteq> set ''0123456789''"
proof (induction n rule: show_nat.induct)
  case (1 n)
  show ?case
  proof (cases "n < 10")
    case True
    then show ?thesis
      using digit_char_in_digits [of n] by (subst show_nat.simps) simp
  next
    case False
    have "n mod 10 < 10" by simp
    from digit_char_in_digits [OF this] 1 [OF False] False show ?thesis
      by (subst show_nat.simps) simp
  qed
qed

lemma str_includes_skip:
  "p \<notin> set D \<Longrightarrow> str_includes (D @ S) (p # ps) = str_includes S (p # ps)"
  by (induction D) auto

lemma str_includes_show_nat:
  "p \<notin> set ''0123456789'' \<Longrightarrow>
     str_includes (show_nat n @ S) (p # ps) = str_includes S (p # ps)"
  using show_nat_digits [of n] by (intro str_includes_skip) blast

lemma handleError_status_messages:
  "handleError (new_Error (''Client error: Server returned '' @ show_nat st @ '' status code''))
     = Inl (reference_error ''err'')"
  "handleError (new_Error (''Server error: Server returned '' @ show_nat st @ '' status code''))
     = Inl (reference_error ''err'')"
  "handleError (new_Error (''HTTP error: Server returned '' @ show_nat st @ '' status code''))
     = Inl (reference_error ''err'')"
  by (simp_all add: handleError_def new_Error_def str_includes_show_nat)

text \<open>Every error that leaves \<open>fetchHTML\<close> is a fresh \<open>Error\<close>: it has no response.\<close>

lemma fetch_catch_plain: "\<exists>msg. fetch_catch e = new_Error msg"
  by (auto simp: fetch_catch_def split: option.splits)

lemma fetchHTML_error_plain:
  assumes "fetchHTML L url = Inl e"
  shows "err_response e = None \<and> err_code e = None"
proof -
  from assms obtain e0 where "e = fetch_catch e0"
    by (auto simp: fetchHTML_def split: sum.splits)
  with fetch_catch_plain [of e0] show ?thesis
    by (auto simp: new_Error_def)
qed

lemma fetch_catch_status:
  assumes "err_response e = Some st"
    and "err_code e \<notin> {Some ''ECONNABORTED'', Some ''ENOTFOUND'', Some ''EAI_AGAIN'',
                         Some ''ECONNREFUSED'', Some ''ETIMEDOUT''}"
  shows "fetch_catch e
           = new_Error ((if 400 \<le> st \<and> st < 500 then ''Client error''
                         else if 500 \<le> st then ''Server error'' else ''HTTP error'')
                        @ '': Server returned '' @ show_nat st @ '' status code'')"
  using assms by (simp add: fetch_catch_def)

lemma handleError_fetch_catch_status:
  assumes "err_response e = Some st"
    and "err_code e \<notin> {Some ''ECONNABORTED'', Some ''ENOTFOUND'', Some ''EAI_AGAIN'',
                         Some ''ECONNREFUSED'', Some ''ETIMEDOUT''}"
  shows "handleError (fetch_catch e) = Inl (reference_error ''err'')"
  unfolding fetch_catch_status [OF assms]
  using handleError_status_messages [of st] by simp

text \<open>
  C1.  A valid request whose target answers with a status outside 2xx: the fetcher
  replaces the client's error by a fresh \<open>Error\<close> that names the status in its
  message only, so neither test on \<open>error.response\<close> in the classifier applies, and
  the classifier ends in the ReferenceError of its undeclared \<open>err\<close>.  No response
  is sent: neither 502 "Bad Gateway" nor 400 "Bad Request".
\<close>

theorem target_status_error_unclassified:
  assumes "body ''url'' = Some (JStr url)" "url \<noteq> []"
    and "URL_parse L url = Some u" "protocol u = ''http:'' \<or> protocol u = ''https:''"
    and "http_get L url = Answered r" "\<not> validateStatus (status r)"
    and "bad_status_code L (status r)
           \<notin> {Some ''ECONNABORTED'', Some ''ENOTFOUND'', Some ''EAI_AGAIN'',
               Some ''ECONNREFUSED'', Some ''ETIMEDOUT''}"
  shows "fetchHTML L url
           = Inl (new_Error ((if 400 \<le> status r \<and> status r < 500 then ''Client error''
                              else if 500 \<le> status r then ''Server error''
                              else ''HTTP error'')
                             @ '': Server returned '' @ show_nat (status r) @ '' status code''))
       \<and> analyze L body = Unhandled (reference_error ''err'')"
proof -
  define e where "e = \<lparr>err_name = ''AxiosError'',
      err_message = ''Request failed with status code '' @ show_nat (status r),
      err_code = bad_status_code L (status r), err_response = Some (status r)\<rparr>"
  have t: "fetch_try L url = Inl e"
    using assms(5,6) by (simp add: fetch_try_def axios_get_def e_def)
  have r: "err_response e = Some (status r)" by (simp add: e_def)
  have c: "err_code e \<notin> {Some ''ECONNABORTED'', Some ''ENOTFOUND'', Some ''EAI_AGAIN'',
                         Some ''ECONNREFUSED'', Some ''ETIMEDOUT''}"
    using assms(7) by (simp add: e_def)
  have f: "fetchHTML L url = Inl (fetch_catch e)"
    by (simp add: fetchHTML_def t)
  then have p: "perform_analysis L url = Inl (fetch_catch e)"
    by (simp add: perform_analysis_def)
  have a: "analyze L body = Unhandled (reference_error ''err'')"
    using assms(1-4)
    by (auto simp: analyze_def body_url_def Let_def p handleError_fetch_catch_status [OF r c])
  from f a show ?thesis by (simp add: fetch_catch_status [OF r c])
qed

theorem target_status_error_unclassified_witness:
  "analyze (example_lib example_doc (error_page 500)) example_request
     = Unhandled (reference_error ''err'')
   \<and> analyze (example_lib example_doc (error_page 404)) example_request
     = Unhandled (reference_error ''err'')
   \<and> fetchHTML (example_lib example_doc (error_page 500)) ''https://example.com''
     = Inl (new_Error ''Server error: Server returned 500 status code'')"
proof -
  have s: "show_nat 500 = ''500''" by code_simp
  have a: "fetchHTML (example_lib example_doc (error_page 500)) ''https://example.com''
             = Inl (new_Error ''Server error: Server returned 500 status code'')
           \<and> analyze (example_lib example_doc (error_page 500)) example_request
             = Unhandled (reference_error ''err'')"
    using target_status_error_unclassified [of example_request "''https://example.com''"
        "example_lib example_doc (error_page 500)"
        "\<lparr>protocol = ''https:'', hostname = ''example.com''\<rparr>" "error_page 500"]
    by (simp add: example_request_def example_lib_def example_url_parse_def error_page_def
          validateStatus_def axios_status_code_def s)
  have b: "analyze (example_lib example_doc (error_page 404)) example_request
             = Unhandled (reference_error ''err'')"
    using target_status_error_unclassified [of example_request "''https://example.com''"
        "example_lib example_doc (error_page 404)"
        "\<lparr>protocol = ''https:'', hostname = ''example.com''\<rparr>" "error_page 404"]
    by (simp add: example_request_def example_lib_def example_url_parse_def error_page_def
          validateStatus_def axios_status_code_def)
  from a b show ?thesis by simp
qed

text \<open>
  The two classifier branches for target statuses need \<open>error.response\<close>; the
  errors the route hands to the classifier never have one, so the route never sends
  their responses.
\<close>

lemma handleError_no_response:
  assumes "err_response e = None" "handleError e = Inr c"
  shows "c_error c \<noteq> ''Bad Request''
       \<and> (c_error c = ''Bad Gateway'' \<longrightarrow> c_message c = ''Unable to resolve the domain name'')"
  using assms unfolding handleError_def Let_def
  by (auto split: if_splits)

lemma perform_analysis_error_no_response:
  assumes "perform_analysis L url = Inl e"
  shows "err_response e = None"
proof (cases "fetchHTML L url")
  case (Inl e')
  with assms have "e = e'" by (simp add: perform_analysis_def)
  with fetchHTML_error_plain [OF Inl] show ?thesis by simp
next
  case (Inr html)
  with assms have "parseSEOData L html url = Inl e"
    by (auto simp: perform_analysis_def Let_def split: sum.splits)
  then have "e = invalid_url_error"
    by (auto simp: parseSEOData_def Let_def split: option.splits)
  then show ?thesis by (simp add: invalid_url_error_def)
qed

lemma target_status_responses_never_sent:
  "analyze L body \<noteq> Sent st (ErrorBody ''Bad Request'' msg)
   \<and> analyze L body \<noteq> Sent st (ErrorBody ''Bad Gateway'' (''Target server returned error: '' @ m))"
proof (cases "truthy (body_url body) \<and> is_string (body_url body)")
  case False
  show ?thesis
  proof (cases "truthy (body_url body)")
    case True
    with False have "\<not> is_string (body_url body)" by simp
    from analyze_non_string [OF True this, of L] show ?thesis by simp
  next
    case False
    from analyze_falsy [OF this, of L] show ?thesis by simp
  qed
next
  case True
  let ?u = "the_string (body_url body)"
  show ?thesis
  proof (cases "perform_analysis L ?u")
    case (Inr a)
    with True show ?thesis
      by (auto simp: analyze_def Let_def split: option.splits)
  next
    case (Inl e)
    from perform_analysis_error_no_response [OF Inl] have n: "err_response e = None" .
    show ?thesis
    proof (cases "handleError e")
      case (Inl x)
      with True \<open>perform_analysis L ?u = Inl e\<close> show ?thesis
        by (auto simp: analyze_def Let_def split: option.splits)
    next
      case (Inr c)
      from handleError_no_response [OF n Inr] True \<open>perform_analysis L ?u = Inl e\<close> Inr
      show ?thesis
        by (auto simp: analyze_def Let_def split: option.splits)
    qed
  qed
qed

section \<open>The meta description\<close>

lemma sel_attr_filter:
  "sel_attr (filter P es) a = (case find P es of None \<Rightarrow> None | Some e \<Rightarrow> attr_of e a)"
  by (induction es) (simp_all add: sel_attr_def)

text \<open>
  C3, as the code has it.  The selectors compare the name attribute exactly, with the
  two spellings "description" and "Description": the result is the content of the
  first meta element named "description" when that content is present and not empty,
  else the content of the first meta element named "Description" when present and
  not empty, else absent.
\<close>

theorem metaDescription_exact_names:
  assumes "parseSEOData L html url = Inr d"
  shows "metaDescription d =
     (let content_of = (\<lambda>v. case find (\<lambda>e. tag_name e = ''meta'' \<and> attr_of e ''name'' = Some v)
                                   (elements (cheerio_load L html)) of
                              None \<Rightarrow> None
                            | Some e \<Rightarrow> attr_of e ''content'')
      in if truthy_str (content_of ''description'') then content_of ''description''
         else if truthy_str (content_of ''Description'') then content_of ''Description''
         else None)"
proof -
  from assms have "metaDescription d = extract_metaDescription (cheerio_load L html)"
    by (auto simp: parseSEOData_def Let_def split: option.splits)
  then show ?thesis
    by (simp add: extract_metaDescription_def select_attr_eq_def sel_attr_filter or_else_def
          Let_def)
qed

theorem metaDescription_exact_names_witness:
  "parseSEOData (example_lib two_metas_doc (html_page ''<html>'')) ''<html>''
       ''https://example.com''
     = Inr \<lparr>title = None, metaDescription = Some ''second'', h1Count = 0, totalImages = 0,
            imagesMissingAlt = 0, totalInternalLinks = 0, usesHTTPS = True\<rparr>"
proof -
  have p: "parseSEOData (example_lib two_metas_doc (html_page ''<html>'')) ''<html>''
       ''https://example.com''
     = Inr \<lparr>title = None, metaDescription = Some ''second'', h1Count = 0, totalImages = 0,
            imagesMissingAlt = 0, totalInternalLinks = 0, usesHTTPS = True\<rparr>"
    by code_simp
  from metaDescription_exact_names [OF p] p show ?thesis by simp
qed

text \<open>
  C3, as the spec states it, fails: a meta element named "DESCRIPTION" is not found
  by the extractor, while the case-insensitive reading yields its content.
\<close>

theorem metaDescription_upper_case_counterexample:
  "map_sum id metaDescription
       (parseSEOData (example_lib upper_case_meta_doc (html_page ''<html>'')) ''<html>''
          ''https://example.com'') = Inr None
   \<and> spec_metaDescription
       (cheerio_load (example_lib upper_case_meta_doc (html_page ''<html>'')) ''<html>'')
     = Some ''desc''"
  by code_simp

lemma metaDescription_document_order_example:
  "extract_metaDescription two_metas_doc = Some ''second''
   \<and> spec_metaDescription two_metas_doc = Some ''first''"
  by code_simp

end
